theory Spec2Isabelle
  imports Main
begin

section \<open>Data model (models.py, schemas.py)\<close>

text \<open>
  The two enumerations are declared twice in the source (models.py and schemas.py) with
  the same members and the same string values; one datatype stands for both.
\<close>

datatype PriorityEnum = LOW | MEDIUM | HIGH | URGENT

datatype StatusEnum = TODO | IN_PROGRESS | COMPLETED | CANCELLED

text \<open>A \<open>datetime\<close> is a point on the time line, counted in clock ticks.\<close>

type_synonym datetime = int

text \<open>
  A row of the table \<open>tasks\<close> (class \<open>Task\<close> of models.py). The columns \<open>title\<close>,
  \<open>priority\<close>, \<open>status\<close>, \<open>created_at\<close> and \<open>updated_at\<close> are declared
  \<open>nullable=False\<close>, the columns \<open>description\<close> and \<open>due_date\<close> are nullable.
  The column \<open>id\<close> is named \<open>task_id\<close> here.
\<close>

record Task =
  task_id :: int
  title :: string
  description :: "string option"
  priority :: PriorityEnum
  status :: StatusEnum
  created_at :: datetime
  updated_at :: datetime
  due_date :: "datetime option"

section \<open>Strings\<close>

text \<open>
  Python's \<open>str.isspace\<close> on the code points below 256, and \<open>str.strip()\<close> with no
  argument, which removes the leading and the trailing run of such characters.
\<close>

definition isspace :: "char \<Rightarrow> bool" where
  "isspace c = (of_char c \<in> {9, 10, 11, 12, 13, 28, 29, 30, 31, 32, 133, 160 :: nat})"

definition strip :: "string \<Rightarrow> string" where
  "strip s = rev (dropWhile isspace (rev (dropWhile isspace s)))"

section \<open>Validation layer (schemas.py)\<close>

text \<open>
  A field of a request body is absent, present with the JSON value null, or present with
  a value. The same three states describe a field of a validated \<open>TaskUpdate\<close>: not in
  \<open>model_fields_set\<close>, set to \<open>None\<close>, or set to a value.
\<close>

datatype 'a field = Unset | Null | Val 'a

text \<open>The reasons Pydantic reports, and a validation error: field names with reasons.\<close>

datatype reason = missing | string_type | string_too_short | string_too_long
  | value_error | enum | greater_than_equal | less_than_equal

type_synonym ValidationError = "(string \<times> reason) list"

fun errs :: "string \<Rightarrow> reason + 'a \<Rightarrow> ValidationError" where
  "errs name (Inl r) = [(name, r)]"
| "errs name (Inr v) = []"

text \<open>The length constraints of \<open>Field(min_length=..., max_length=...)\<close> on a string.\<close>

definition str_constraints :: "nat \<Rightarrow> nat \<Rightarrow> string \<Rightarrow> reason + string" where
  "str_constraints min_length max_length v =
     (if length v < min_length then Inl string_too_short
      else if max_length < length v then Inl string_too_long
      else Inr v)"

text \<open>\<open>TaskBase.validate_title\<close> and \<open>TaskBase.validate_description\<close>.\<close>

definition validate_title :: "string \<Rightarrow> reason + string" where
  "validate_title v = (if v = [] \<or> strip v = [] then Inl value_error else Inr (strip v))"

definition validate_description :: "string option \<Rightarrow> string option" where
  "validate_description v =
     (case v of None \<Rightarrow> None | Some s \<Rightarrow> if s \<noteq> [] then Some (strip s) else Some s)"

text \<open>The members of the enumerations by their string values.\<close>

definition PriorityEnum_of :: "string \<Rightarrow> reason + PriorityEnum" where
  "PriorityEnum_of s =
     (if s = ''low'' then Inr LOW else if s = ''medium'' then Inr MEDIUM
      else if s = ''high'' then Inr HIGH else if s = ''urgent'' then Inr URGENT
      else Inl enum)"

definition StatusEnum_of :: "string \<Rightarrow> reason + StatusEnum" where
  "StatusEnum_of s =
     (if s = ''todo'' then Inr TODO else if s = ''in_progress'' then Inr IN_PROGRESS
      else if s = ''completed'' then Inr COMPLETED else if s = ''cancelled'' then Inr CANCELLED
      else Inl enum)"

text \<open>
  The body of a create or update request, as decoded from JSON: the enumeration fields
  are still strings. Parsing of the ISO-8601 text of \<open>due_date\<close> is not modelled.
\<close>

record Body =
  b_title :: "string field"
  b_description :: "string field"
  b_priority :: "string field"
  b_status :: "string field"
  b_due_date :: "datetime field"

text \<open>
  The fields of \<open>TaskBase\<close>, inherited by \<open>TaskCreate\<close>. The constraints of \<open>Field\<close>
  are checked on the value as supplied; the \<open>field_validator\<close> (mode after) runs on a
  value that passed them. A default is not validated.
\<close>

fun TaskBase_title :: "string field \<Rightarrow> reason + string" where
  "TaskBase_title Unset = Inl missing"
| "TaskBase_title Null = Inl string_type"
| "TaskBase_title (Val v) =
     (case str_constraints 3 200 v of Inl r \<Rightarrow> Inl r | Inr v' \<Rightarrow> validate_title v')"

fun TaskBase_description :: "string field \<Rightarrow> reason + string option" where
  "TaskBase_description Unset = Inr None"
| "TaskBase_description Null = Inr (validate_description None)"
| "TaskBase_description (Val v) =
     (if 1000 < length v then Inl string_too_long else Inr (validate_description (Some v)))"

fun TaskBase_priority :: "string field \<Rightarrow> reason + PriorityEnum" where
  "TaskBase_priority Unset = Inr MEDIUM"
| "TaskBase_priority Null = Inl enum"
| "TaskBase_priority (Val s) = PriorityEnum_of s"

fun TaskBase_status :: "string field \<Rightarrow> reason + StatusEnum" where
  "TaskBase_status Unset = Inr TODO"
| "TaskBase_status Null = Inl enum"
| "TaskBase_status (Val s) = StatusEnum_of s"

fun TaskBase_due_date :: "datetime field \<Rightarrow> reason + datetime option" where
  "TaskBase_due_date Unset = Inr None"
| "TaskBase_due_date Null = Inr None"
| "TaskBase_due_date (Val d) = Inr (Some d)"

record TaskCreate =
  c_title :: string
  c_description :: "string option"
  c_priority :: PriorityEnum
  c_status :: StatusEnum
  c_due_date :: "datetime option"

text \<open>Validation of a create payload: every failing field is reported, in field order.\<close>

definition TaskCreate_validate :: "Body \<Rightarrow> ValidationError + TaskCreate" where
  "TaskCreate_validate b =
     (case (TaskBase_title (b_title b), TaskBase_description (b_description b),
            TaskBase_priority (b_priority b), TaskBase_status (b_status b),
            TaskBase_due_date (b_due_date b)) of
        (Inr t, Inr d, Inr p, Inr s, Inr dd) \<Rightarrow>
          Inr \<lparr>c_title = t, c_description = d, c_priority = p, c_status = s, c_due_date = dd\<rparr>
      | (rt, rd, rp, rs, rdd) \<Rightarrow>
          Inl (errs ''title'' rt @ errs ''description'' rd @ errs ''priority'' rp
               @ errs ''status'' rs @ errs ''due_date'' rdd))"

text \<open>
  The fields of \<open>TaskUpdate\<close>: all optional with default \<open>None\<close>, the same length
  constraints, and no \<open>field_validator\<close>.
\<close>

fun TaskUpdate_title :: "string field \<Rightarrow> reason + string field" where
  "TaskUpdate_title Unset = Inr Unset"
| "TaskUpdate_title Null = Inr Null"
| "TaskUpdate_title (Val v) =
     (case str_constraints 3 200 v of Inl r \<Rightarrow> Inl r | Inr v' \<Rightarrow> Inr (Val v'))"

fun TaskUpdate_description :: "string field \<Rightarrow> reason + string field" where
  "TaskUpdate_description Unset = Inr Unset"
| "TaskUpdate_description Null = Inr Null"
| "TaskUpdate_description (Val v) =
     (if 1000 < length v then Inl string_too_long else Inr (Val v))"

fun TaskUpdate_priority :: "string field \<Rightarrow> reason + PriorityEnum field" where
  "TaskUpdate_priority Unset = Inr Unset"
| "TaskUpdate_priority Null = Inr Null"
| "TaskUpdate_priority (Val s) =
     (case PriorityEnum_of s of Inl r \<Rightarrow> Inl r | Inr p \<Rightarrow> Inr (Val p))"

fun TaskUpdate_status :: "string field \<Rightarrow> reason + StatusEnum field" where
  "TaskUpdate_status Unset = Inr Unset"
| "TaskUpdate_status Null = Inr Null"
| "TaskUpdate_status (Val s) =
     (case StatusEnum_of s of Inl r \<Rightarrow> Inl r | Inr p \<Rightarrow> Inr (Val p))"

record TaskUpdate =
  u_title :: "string field"
  u_description :: "string field"
  u_priority :: "PriorityEnum field"
  u_status :: "StatusEnum field"
  u_due_date :: "datetime field"

definition TaskUpdate_validate :: "Body \<Rightarrow> ValidationError + TaskUpdate" where
  "TaskUpdate_validate b =
     (case (TaskUpdate_title (b_title b), TaskUpdate_description (b_description b),
            TaskUpdate_priority (b_priority b), TaskUpdate_status (b_status b)) of
        (Inr t, Inr d, Inr p, Inr s) \<Rightarrow>
          Inr \<lparr>u_title = t, u_description = d, u_priority = p, u_status = s,
               u_due_date = b_due_date b\<rparr>
      | (rt, rd, rp, rs) \<Rightarrow>
          Inl (errs ''title'' rt @ errs ''description'' rd @ errs ''priority'' rp
               @ errs ''status'' rs))"

section \<open>Data-access layer (crud.py)\<close>

text \<open>
  The store is the table \<open>tasks\<close>: its rows in the order of insertion. The session is
  passed in and the store after the operation is returned beside the result.
\<close>

type_synonym Session = "Task list"

text \<open>
  The persistence layer may raise at each of its calls. An operation of this layer makes
  at most one call of each kind: the \<open>SELECT\<close> of \<open>get_task_by_id\<close>, the
  \<open>commit\<close>, and the \<open>refresh\<close> that reads the row back after the commit. A fault
  names the call that raises and the exception it raises; \<open>None\<close> is a run in which
  the store answers every call.
\<close>

datatype db_call = Query | Commit | Refresh

datatype db_error = IntegrityError | OperationalError | DatabaseError

type_synonym fault = "(db_call \<times> db_error) option"

fun raises :: "fault \<Rightarrow> db_call \<Rightarrow> db_error option" where
  "raises None c = None"
| "raises (Some (c', e)) c = (if c' = c then Some e else None)"

text \<open>
  The integer primary key as the default store (SQLite) assigns it: one more than the
  largest id in the table, 1 in an empty table.
\<close>

definition new_id :: "Session \<Rightarrow> int" where
  "new_id db = fold max (map task_id db) 0 + 1"

text \<open>
  \<open>create_task\<close>: both timestamps are the server default \<open>func.now()\<close> of the one
  \<open>INSERT\<close>, the reading \<open>now\<close> of the clock. An exception inside \<open>try\<close> goes to
  \<open>db.rollback()\<close> and is raised again; after a commit that succeeded there is nothing
  left to roll back.
\<close>

definition create_task :: "Session \<Rightarrow> datetime \<Rightarrow> fault \<Rightarrow> TaskCreate \<Rightarrow> (db_error + Task) \<times> Session" where
  "create_task db now flt task =
     (let db_task = \<lparr>task_id = new_id db, title = c_title task,
                      description = c_description task, priority = c_priority task,
                      status = c_status task, created_at = now, updated_at = now,
                      due_date = c_due_date task\<rparr>
      in case raises flt Commit of
           Some e \<Rightarrow> (Inl e, db)
         | None \<Rightarrow>
             (case raises flt Refresh of
                Some e \<Rightarrow> (Inl e, db @ [db_task])
              | None \<Rightarrow> (Inr db_task, db @ [db_task])))"

definition get_task_by_id :: "Session \<Rightarrow> int \<Rightarrow> Task option" where
  "get_task_by_id db i = find (\<lambda>t. task_id t = i) db"

text \<open>
  \<open>OFFSET\<close> and \<open>LIMIT\<close>. \<open>None\<close> is a query without \<open>LIMIT\<close>. The default store
  reads a negative offset as 0 and a negative limit as no limit.
\<close>

definition sql_offset :: "int \<Rightarrow> 'a list \<Rightarrow> 'a list" where
  "sql_offset skip xs = drop (nat skip) xs"

definition sql_limit :: "int option \<Rightarrow> 'a list \<Rightarrow> 'a list" where
  "sql_limit limit xs =
     (case limit of None \<Rightarrow> xs | Some n \<Rightarrow> if n < 0 then xs else take (nat n) xs)"

text \<open>
  The two optional filters, shared by \<open>get_all_tasks\<close> and \<open>get_tasks_count\<close>. A
  member of either enumeration is a non-empty string, so \<open>if status:\<close> tests for
  \<open>None\<close>.
\<close>

definition apply_filters :: "StatusEnum option \<Rightarrow> PriorityEnum option \<Rightarrow> Task list \<Rightarrow> Task list" where
  "apply_filters st pr query =
     (let query = (case st of None \<Rightarrow> query | Some s \<Rightarrow> filter (\<lambda>t. status t = s) query);
          query = (case pr of None \<Rightarrow> query | Some p \<Rightarrow> filter (\<lambda>t. priority t = p) query)
      in query)"

text \<open>
  \<open>get_all_tasks\<close>: newest \<open>created_at\<close> first; rows with equal \<open>created_at\<close> are
  kept in table order.
\<close>

definition get_all_tasks :: "Session \<Rightarrow> int \<Rightarrow> int option \<Rightarrow> StatusEnum option \<Rightarrow> PriorityEnum option \<Rightarrow> Task list" where
  "get_all_tasks db skip limit st pr =
     (let query = apply_filters st pr db;
          query = sort_key (\<lambda>t. - created_at t) query
      in sql_limit limit (sql_offset skip query))"

definition get_tasks_count :: "Session \<Rightarrow> StatusEnum option \<Rightarrow> PriorityEnum option \<Rightarrow> int" where
  "get_tasks_count db st pr = int (length (apply_filters st pr db))"

text \<open>
  \<open>update_task\<close>. \<open>model_dump(exclude_unset=True)\<close> holds the fields that were set;
  \<open>setattr\<close> assigns each of them, \<open>None\<close> included, to the object of the session.
\<close>

fun setattr :: "'a field \<Rightarrow> 'a option \<Rightarrow> 'a option" where
  "setattr Unset old = old"
| "setattr Null old = None"
| "setattr (Val v) old = Some v"

text \<open>
  The \<open>UPDATE\<close> of the commit: a column declared \<open>nullable=False\<close> that holds
  \<open>None\<close> violates its constraint.
\<close>

definition flush_update :: "Task \<Rightarrow> TaskUpdate \<Rightarrow> datetime \<Rightarrow> db_error + Task" where
  "flush_update db_task task_update now =
     (case (setattr (u_title task_update) (Some (title db_task)),
            setattr (u_priority task_update) (Some (priority db_task)),
            setattr (u_status task_update) (Some (status db_task))) of
        (Some t, Some p, Some s) \<Rightarrow>
          Inr (db_task\<lparr>title := t,
                 description := setattr (u_description task_update) (description db_task),
                 priority := p, status := s,
                 due_date := setattr (u_due_date task_update) (due_date db_task),
                 updated_at := now\<rparr>)
      | _ \<Rightarrow> Inl IntegrityError)"

definition update_task :: "Session \<Rightarrow> datetime \<Rightarrow> fault \<Rightarrow> int \<Rightarrow> TaskUpdate \<Rightarrow> (db_error + Task option) \<times> Session" where
  "update_task db now flt i task_update =
     (case raises flt Query of
        Some e \<Rightarrow> (Inl e, db)
      | None \<Rightarrow>
          (case get_task_by_id db i of
             None \<Rightarrow> (Inr None, db)
           | Some db_task \<Rightarrow>
               (case raises flt Commit of
                  Some e \<Rightarrow> (Inl e, db)
                | None \<Rightarrow>
                    (case flush_update db_task task_update now of
                       Inl e \<Rightarrow> (Inl e, db)
                     | Inr t' \<Rightarrow>
                         (let db' = map (\<lambda>r. if task_id r = i then t' else r) db
                          in case raises flt Refresh of
                               Some e \<Rightarrow> (Inl e, db')
                             | None \<Rightarrow> (Inr (Some t'), db'))))))"

definition delete_task :: "Session \<Rightarrow> fault \<Rightarrow> int \<Rightarrow> (db_error + bool) \<times> Session" where
  "delete_task db flt i =
     (case raises flt Query of
        Some e \<Rightarrow> (Inl e, db)
      | None \<Rightarrow>
          (case get_task_by_id db i of
             None \<Rightarrow> (Inr False, db)
           | Some db_task \<Rightarrow>
               (case raises flt Commit of
                  Some e \<Rightarrow> (Inl e, db)
                | None \<Rightarrow> (Inr True, filter (\<lambda>r. task_id r \<noteq> i) db))))"

text \<open>
  \<open>get_overdue_tasks\<close>: in SQL a comparison with \<open>NULL\<close> is not true, so a row
  without \<open>due_date\<close> does not pass \<open>Task.due_date < now\<close>.
\<close>

definition get_overdue_tasks :: "Session \<Rightarrow> datetime \<Rightarrow> Task list" where
  "get_overdue_tasks db now =
     filter (\<lambda>t. (case due_date t of None \<Rightarrow> False | Some d \<Rightarrow> d < now)
                 \<and> status t \<noteq> COMPLETED \<and> status t \<noteq> CANCELLED) db"

text \<open>\<open>TaskUpdate(status=StatusEnum.COMPLETED)\<close>: only \<open>status\<close> is set.\<close>

definition mark_task_as_completed :: "Session \<Rightarrow> datetime \<Rightarrow> fault \<Rightarrow> int \<Rightarrow> (db_error + Task option) \<times> Session" where
  "mark_task_as_completed db now flt i =
     (let task_update = \<lparr>u_title = Unset, u_description = Unset, u_priority = Unset,
                          u_status = Val COMPLETED, u_due_date = Unset\<rparr>
      in update_task db now flt i task_update)"

section \<open>API layer (routes.py)\<close>

text \<open>
  The answer to a request: the body with the status code of the decorator of the route;
  an \<open>HTTPException\<close> with its status code; the validation error of the request (422),
  found before the body of the route runs; a validation error raised by Pydantic inside
  the body of the route; or the validation error of a returned value that does not fit
  the \<open>response_model\<close>. Neither of the last two is caught by a route, and
  \<open>general_exception_handler\<close> of main.py answers both with 500.
\<close>

datatype 'a http = Ok 'a | HTTPException int
  | RequestValidationError ValidationError
  | PydanticValidationError ValidationError
  | ResponseValidationError ValidationError

text \<open>
  \<open>TaskResponse\<close> inherits the fields, the constraints and the two validators of
  \<open>TaskBase\<close> and adds \<open>id\<close>, \<open>created_at\<close> and \<open>updated_at\<close>: it has the fields
  of a row. With \<open>from_attributes\<close> it is built from a row, and the building validates:
  the title of the row must have 3 to 200 characters and must not be blank, the
  description at most 1000 characters, and both come out trimmed. The members of the
  enumerations and the timestamps of a row always fit. The position of the item is left
  out of the location of an error.
\<close>

type_synonym TaskResponse = Task

definition TaskResponse_validate :: "Task \<Rightarrow> ValidationError + TaskResponse" where
  "TaskResponse_validate db_task =
     (case (TaskBase_title (Val (title db_task)),
            TaskBase_description (case description db_task of None \<Rightarrow> Null | Some d \<Rightarrow> Val d)) of
        (Inr t, Inr d) \<Rightarrow> Inr (db_task\<lparr>title := t, description := d\<rparr>)
      | (rt, rd) \<Rightarrow> Inl (errs ''title'' rt @ errs ''description'' rd))"






text \<open>
  \<open>DELETE /tasks/{task_id}\<close> (\<open>delete_task\<close> of routes.py): the body of the answer
  is the message naming the id. An exception of the data-access layer is not caught here.
\<close>

definition delete_task_route :: "Session \<Rightarrow> fault \<Rightarrow> int \<Rightarrow> (db_error + int http) \<times> Session" where
  "delete_task_route db flt i =
     (case delete_task db flt i of
        (Inl e, db') \<Rightarrow> (Inl e, db')
      | (Inr success, db') \<Rightarrow>
          if \<not> success then (Inr (HTTPException 404), db') else (Inr (Ok i), db'))"

text \<open>
  \<open>GET /tasks/{task_id}\<close> (\<open>get_task\<close> of routes.py): the row the route returns is
  validated against \<open>response_model=TaskResponse\<close>.
\<close>

definition get_task :: "Session \<Rightarrow> int \<Rightarrow> TaskResponse http" where
  "get_task db i =
     (case get_task_by_id db i of
        None \<Rightarrow> HTTPException 404
      | Some db_task \<Rightarrow>
          (case TaskResponse_validate db_task of
             Inl es \<Rightarrow> ResponseValidationError es
           | Inr r \<Rightarrow> Ok r))"

section \<open>Sequences of operations\<close>

text \<open>
  One request to the data-access layer, with the reading of the clock at which it runs
  and the fault of the persistence layer during it.
\<close>

datatype op = Create TaskCreate | Update int TaskUpdate | Delete int | MarkCompleted int

fun step :: "Session \<Rightarrow> datetime \<times> fault \<times> op \<Rightarrow> Session" where
  "step db (now, flt, Create task) = snd (create_task db now flt task)"
| "step db (now, flt, Update i task_update) = snd (update_task db now flt i task_update)"
| "step db (now, flt, Delete i) = snd (delete_task db flt i)"
| "step db (now, flt, MarkCompleted i) = snd (mark_task_as_completed db now flt i)"

definition run :: "Session \<Rightarrow> (datetime \<times> fault \<times> op) list \<Rightarrow> Session" where
  "run db evs = foldl step db evs"

section \<open>Example data\<close>

definition task1 :: Task where
  "task1 = \<lparr>task_id = 1, title = ''Write report'', description = None, priority = MEDIUM,
             status = TODO, created_at = 10, updated_at = 10, due_date = Some 20\<rparr>"

definition task2 :: Task where
  "task2 = \<lparr>task_id = 2, title = ''Pay invoice'', description = Some ''today'',
             priority = HIGH, status = COMPLETED, created_at = 12, updated_at = 15,
             due_date = Some 14\<rparr>"

definition task3 :: Task where
  "task3 = \<lparr>task_id = 3, title = ''Plan trip'', description = None, priority = LOW,
             status = IN_PROGRESS, created_at = 13, updated_at = 13, due_date = None\<rparr>"

definition example_db :: Session where
  "example_db = [task1, task2, task3]"

definition create_abc :: TaskCreate where
  "create_abc = \<lparr>c_title = ''abc'', c_description = None, c_priority = MEDIUM,
                  c_status = TODO, c_due_date = None\<rparr>"

definition no_update :: TaskUpdate where
  "no_update = \<lparr>u_title = Unset, u_description = Unset, u_priority = Unset,
                 u_status = Unset, u_due_date = Unset\<rparr>"

lemmas ex_defs = task1_def task2_def task3_def example_db_def create_abc_def no_update_def

section \<open>Properties of the validation layer\<close>

lemma strip_Nil: "strip [] = []" by (simp add: strip_def)

lemma TaskBase_title_accepts:
  "TaskBase_title (Val v) = Inr t \<longleftrightarrow>
     strip v \<noteq> [] \<and> 3 \<le> length v \<and> length v \<le> 200 \<and> t = strip v"
  by (auto simp: str_constraints_def validate_title_def strip_Nil)

lemma TaskBase_description_trims:
  "TaskBase_description (Val d) = Inr r \<longleftrightarrow> length d \<le> 1000 \<and> r = Some (strip d)"
  by (auto simp: validate_description_def strip_Nil)

lemma TaskCreate_validate_InrD:
  assumes "TaskCreate_validate b = Inr c"
  shows "TaskBase_title (b_title b) = Inr (c_title c)"
    and "TaskBase_description (b_description b) = Inr (c_description c)"
  using assms unfolding TaskCreate_validate_def
  by (auto split: sum.splits)





section \<open>Properties of the data-access layer\<close>

lemma get_task_by_id_SomeD:
  "get_task_by_id db i = Some t \<Longrightarrow> task_id t = i \<and> t \<in> set db"
  by (auto simp: get_task_by_id_def find_Some_iff)

lemma get_task_by_id_None_iff:
  "get_task_by_id db i = None \<longleftrightarrow> (\<forall>t \<in> set db. task_id t \<noteq> i)"
  by (auto simp: get_task_by_id_def find_None_iff)

lemma get_task_by_id_deleted:
  "get_task_by_id (filter (\<lambda>r. task_id r \<noteq> i) db) i = None"
  by (simp add: get_task_by_id_None_iff)

lemma filter_absent_id:
  "get_task_by_id db i = None \<Longrightarrow> filter (\<lambda>r. task_id r \<noteq> i) db = db"
  by (simp add: get_task_by_id_None_iff)

lemma get_task_by_id_replaced:
  "get_task_by_id db i = Some t \<Longrightarrow> task_id t' = i \<Longrightarrow>
   get_task_by_id (map (\<lambda>r. if task_id r = i then t' else r) db) i = Some t'"
  unfolding get_task_by_id_def by (induction db) (auto split: if_splits)

lemma others_after_replace:
  "task_id t' = i \<Longrightarrow>
   filter (\<lambda>r. task_id r \<noteq> i) (map (\<lambda>r. if task_id r = i then t' else r) db)
     = filter (\<lambda>r. task_id r \<noteq> i) db"
  by (induction db) auto

lemma flush_update_Inr:
  assumes "u_title u \<noteq> Null" and "u_priority u \<noteq> Null" and "u_status u \<noteq> Null"
  shows "flush_update t u now =
     Inr (t\<lparr>title := (case u_title u of Val v \<Rightarrow> v | _ \<Rightarrow> title t),
            description := setattr (u_description u) (description t),
            priority := (case u_priority u of Val v \<Rightarrow> v | _ \<Rightarrow> priority t),
            status := (case u_status u of Val v \<Rightarrow> v | _ \<Rightarrow> status t),
            due_date := setattr (u_due_date u) (due_date t),
            updated_at := now\<rparr>)"
  using assms unfolding flush_update_def
  by (cases "u_title u"; cases "u_priority u"; cases "u_status u") simp_all

lemma flush_update_Inl:
  assumes "u_title u = Null \<or> u_priority u = Null \<or> u_status u = Null"
  shows "flush_update t u now = Inl IntegrityError"
  using assms unfolding flush_update_def
  by (cases "u_title u"; cases "u_priority u"; cases "u_status u") simp_all

lemma flush_update_cases:
  "flush_update t u now = Inl IntegrityError \<or>
   flush_update t u now =
     Inr (t\<lparr>title := (case u_title u of Val v \<Rightarrow> v | _ \<Rightarrow> title t),
            description := setattr (u_description u) (description t),
            priority := (case u_priority u of Val v \<Rightarrow> v | _ \<Rightarrow> priority t),
            status := (case u_status u of Val v \<Rightarrow> v | _ \<Rightarrow> status t),
            due_date := setattr (u_due_date u) (due_date t),
            updated_at := now\<rparr>)"
  using flush_update_Inr flush_update_Inl by blast

lemma flush_update_frame:
  assumes "flush_update t u now = Inr t'"
  shows "task_id t' = task_id t" and "created_at t' = created_at t" and "updated_at t' = now"
    and "u_title u = Unset \<Longrightarrow> title t' = title t"
    and "u_description u = Unset \<Longrightarrow> description t' = description t"
    and "u_priority u = Unset \<Longrightarrow> priority t' = priority t"
    and "u_status u = Unset \<Longrightarrow> status t' = status t"
    and "u_due_date u = Unset \<Longrightarrow> due_date t' = due_date t"
  using assms flush_update_cases [of t u now] by auto

text \<open>The outcomes of an update of an existing row.\<close>

lemma update_task_outcomes:
  assumes "get_task_by_id db i = Some t"
  shows "snd (update_task db now flt i u) = db
       \<or> (\<exists>t'. flush_update t u now = Inr t'
              \<and> snd (update_task db now flt i u) = map (\<lambda>r. if task_id r = i then t' else r) db)"
  using assms unfolding update_task_def
  by (auto split: option.splits sum.splits simp: Let_def)

lemma update_task_success:
  assumes "get_task_by_id db i = Some t" and "flush_update t u now = Inr t'"
  shows "update_task db now None i u = (Inr (Some t'), map (\<lambda>r. if task_id r = i then t' else r) db)"
  using assms unfolding update_task_def by (simp add: Let_def)

lemma create_task_rollback:
  "create_task db now (Some (Commit, e)) task = (Inl e, db)"
  by (simp add: create_task_def Let_def)

lemma update_task_rollback_query:
  "update_task db now (Some (Query, e)) i u = (Inl e, db)"
  by (simp add: update_task_def)

lemma update_task_rollback_commit:
  "get_task_by_id db i \<noteq> None \<Longrightarrow> update_task db now (Some (Commit, e)) i u = (Inl e, db)"
  by (auto simp: update_task_def)

lemma update_task_rollback_integrity:
  "get_task_by_id db i = Some t \<Longrightarrow> u_title u = Null \<or> u_priority u = Null \<or> u_status u = Null \<Longrightarrow>
   update_task db now None i u = (Inl IntegrityError, db)"
  by (simp add: update_task_def flush_update_Inl)

lemma delete_task_rollback_query:
  "delete_task db (Some (Query, e)) i = (Inl e, db)"
  by (simp add: delete_task_def)

lemma delete_task_rollback_commit:
  "get_task_by_id db i \<noteq> None \<Longrightarrow> delete_task db (Some (Commit, e)) i = (Inl e, db)"
  by (auto simp: delete_task_def)

lemma flush_update_InlD: "flush_update t u now = Inl e \<Longrightarrow> e = IntegrityError"
  using flush_update_cases [of t u now] by auto

lemma raises_cases:
  "raises flt c = None \<or> (\<exists>e. flt = Some (c, e) \<and> raises flt c = Some e)"
  by (cases flt) auto

lemma create_task_error_unchanged:
  assumes "fst (create_task db now flt task) = Inl e" and "raises flt Refresh = None"
  shows "flt = Some (Commit, e) \<and> snd (create_task db now flt task) = db"
  using assms raises_cases [of flt Commit]
  by (auto simp: create_task_def Let_def split: option.splits)

lemma update_task_error_unchanged:
  assumes "fst (update_task db now flt i u) = Inl e" and "raises flt Refresh = None"
  shows "snd (update_task db now flt i u) = db
         \<and> (flt = Some (Query, e) \<or> flt = Some (Commit, e) \<or> e = IntegrityError)"
  using assms raises_cases [of flt Commit] raises_cases [of flt Query]
  unfolding update_task_def
  by (auto simp: Let_def split: option.splits sum.splits dest: flush_update_InlD)

lemma delete_task_error_unchanged:
  assumes "fst (delete_task db flt i) = Inl e"
  shows "snd (delete_task db flt i) = db \<and> (flt = Some (Query, e) \<or> flt = Some (Commit, e))"
  using assms raises_cases [of flt Commit] raises_cases [of flt Query]
  unfolding delete_task_def
  by (auto split: option.splits)

lemma create_task_after_commit:
  "\<exists>t. create_task db now (Some (Refresh, e)) task = (Inl e, db @ [t])"
  by (simp add: create_task_def Let_def)

lemma create_task_rows:
  "snd (create_task db now flt task) = db
   \<or> (\<exists>t. snd (create_task db now flt task) = db @ [t] \<and> created_at t = now \<and> updated_at t = now)"
  by (auto simp: create_task_def Let_def split: option.splits)

lemma update_task_rows:
  "snd (update_task db now flt i u) = db
   \<or> (\<exists>t t'. get_task_by_id db i = Some t \<and> flush_update t u now = Inr t'
        \<and> snd (update_task db now flt i u) = map (\<lambda>r. if task_id r = i then t' else r) db)"
proof (cases "get_task_by_id db i")
  case None
  then show ?thesis by (auto simp: update_task_def split: option.splits)
next
  case (Some t)
  from update_task_outcomes [OF this, of now flt u] Some show ?thesis by blast
qed

lemma delete_task_rows:
  "set (snd (delete_task db flt i)) \<subseteq> set db"
  by (auto simp: delete_task_def split: option.splits)

lemma update_task_timestamps:
  assumes inv: "\<forall>t\<in>set db. created_at t \<le> updated_at t \<and> updated_at t \<le> c" and c: "c \<le> now"
  shows "\<forall>t\<in>set (snd (update_task db now flt i u)). created_at t \<le> updated_at t \<and> updated_at t \<le> now"
proof -
  from update_task_rows [of db now flt i u] show ?thesis
  proof
    assume "snd (update_task db now flt i u) = db"
    with inv c show ?thesis by fastforce
  next
    assume "\<exists>t t'. get_task_by_id db i = Some t \<and> flush_update t u now = Inr t'
        \<and> snd (update_task db now flt i u) = map (\<lambda>r. if task_id r = i then t' else r) db"
    then obtain t t' where g: "get_task_by_id db i = Some t" and fl: "flush_update t u now = Inr t'"
      and s: "snd (update_task db now flt i u) = map (\<lambda>r. if task_id r = i then t' else r) db"
      by blast
    from g have "t \<in> set db" by (simp add: get_task_by_id_SomeD)
    with inv c have "created_at t \<le> now" by fastforce
    with flush_update_frame(2,3) [OF fl]
    have t': "created_at t' \<le> updated_at t' \<and> updated_at t' \<le> now" by simp
    show ?thesis unfolding s using inv c t' by fastforce
  qed
qed

lemma step_timestamps:
  assumes inv: "\<forall>t\<in>set db. created_at t \<le> updated_at t \<and> updated_at t \<le> c" and c: "c \<le> now"
  shows "\<forall>t\<in>set (step db (now, flt, x)). created_at t \<le> updated_at t \<and> updated_at t \<le> now"
proof (cases x)
  case (Create task)
  from create_task_rows [of db now flt task] inv c show ?thesis
    unfolding Create step.simps by fastforce
next
  case (Update i u)
  show ?thesis unfolding Update step.simps by (rule update_task_timestamps [OF inv c])
next
  case (Delete i)
  from delete_task_rows [of db flt i] inv c show ?thesis
    unfolding Delete step.simps by fastforce
next
  case (MarkCompleted i)
  show ?thesis unfolding MarkCompleted step.simps mark_task_as_completed_def Let_def
    by (rule update_task_timestamps [OF inv c])
qed

lemma run_timestamps:
  assumes "\<forall>t\<in>set db. created_at t \<le> updated_at t \<and> updated_at t \<le> c"
    and "sorted (map fst evs)" and "\<forall>ev\<in>set evs. c \<le> fst ev"
  shows "\<forall>t\<in>set (run db evs). created_at t \<le> updated_at t"
  using assms
proof (induction evs arbitrary: db c)
  case Nil
  then show ?case by (fastforce simp: run_def)
next
  case (Cons ev evs)
  obtain now flt x where ev: "ev = (now, flt, x)" by (cases ev) auto
  from Cons.prems(3) ev have c: "c \<le> now" by simp
  have inv': "\<forall>t\<in>set (step db ev). created_at t \<le> updated_at t \<and> updated_at t \<le> now"
    unfolding ev by (rule step_timestamps [OF Cons.prems(1) c])
  from Cons.prems(2) ev have s: "sorted (map fst evs)" and b: "\<forall>e\<in>set evs. now \<le> fst e"
    by auto
  from Cons.IH [OF inv' s b] show ?case by (simp add: run_def)
qed

section \<open>The claims\<close>

text \<open>
  Claim C1 (validation of titles, trimming of title and description, on create and on
  update payloads). On a create payload the title is rejected when it is empty after
  trimming or when its length as supplied is outside 3..200, and the stored title and
  description are the trimmed ones (lemmas \<open>TaskBase_title_accepts\<close>,
  \<open>TaskBase_description_trims\<close> and \<open>TaskCreate_validate_InrD\<close> above). An update
  payload goes through \<open>TaskUpdate\<close>, which has the length constraints but none of the
  two validators: the title of three blanks, which the create payload rejects, is accepted,
  and title and description are kept as supplied, not trimmed.
\<close>

theorem TaskUpdate_accepts_blank_title:
  "TaskUpdate_validate \<lparr>b_title = Val ''   '', b_description = Val '' note '',
       b_priority = Unset, b_status = Unset, b_due_date = Unset\<rparr>
     = Inr \<lparr>u_title = Val ''   '', u_description = Val '' note '', u_priority = Unset,
            u_status = Unset, u_due_date = Unset\<rparr>
   \<and> strip ''   '' = [] \<and> strip '' note '' = ''note''
   \<and> TaskCreate_validate \<lparr>b_title = Val ''   '', b_description = Val '' note '',
       b_priority = Unset, b_status = Unset, b_due_date = Unset\<rparr>
     = Inl [(''title'', value_error)]"
  by (simp add: TaskUpdate_validate_def TaskCreate_validate_def str_constraints_def
      validate_title_def validate_description_def strip_def isspace_def)

text \<open>
  Claim C2 (an update changes exactly the supplied fields and refreshes \<open>updated_at\<close>;
  omitted fields keep their values), as amended: for an existing task, an update whose
  payload sets none of \<open>title\<close>, \<open>priority\<close>, \<open>status\<close> to null, run without a
  fault of the store, returns the task with every supplied field at its supplied value
  (null clears \<open>description\<close> and \<open>due_date\<close>) and \<open>updated_at\<close> at the reading of
  the clock, and stores it. Whatever the payload and the fault, the row of that id keeps
  its id, its \<open>created_at\<close> and every field the payload omits, and the other rows are
  the same.
\<close>

theorem update_task_changes_supplied_fields:
  assumes "get_task_by_id db i = Some t"
  shows "(u_title u \<noteq> Null \<and> u_priority u \<noteq> Null \<and> u_status u \<noteq> Null \<longrightarrow>
           (\<exists>t'. update_task db now None i u =
                    (Inr (Some t'), map (\<lambda>r. if task_id r = i then t' else r) db)
               \<and> get_task_by_id (snd (update_task db now None i u)) i = Some t'
               \<and> updated_at t' = now
               \<and> (\<forall>v. u_title u = Val v \<longrightarrow> title t' = v)
               \<and> (u_description u = Null \<longrightarrow> description t' = None)
               \<and> (\<forall>v. u_description u = Val v \<longrightarrow> description t' = Some v)
               \<and> (\<forall>v. u_priority u = Val v \<longrightarrow> priority t' = v)
               \<and> (\<forall>v. u_status u = Val v \<longrightarrow> status t' = v)
               \<and> (u_due_date u = Null \<longrightarrow> due_date t' = None)
               \<and> (\<forall>v. u_due_date u = Val v \<longrightarrow> due_date t' = Some v)))
       \<and> (\<forall>flt r. get_task_by_id (snd (update_task db now flt i u)) i = Some r \<longrightarrow>
             task_id r = task_id t \<and> created_at r = created_at t
             \<and> (u_title u = Unset \<longrightarrow> title r = title t)
             \<and> (u_description u = Unset \<longrightarrow> description r = description t)
             \<and> (u_priority u = Unset \<longrightarrow> priority r = priority t)
             \<and> (u_status u = Unset \<longrightarrow> status r = status t)
             \<and> (u_due_date u = Unset \<longrightarrow> due_date r = due_date t))
       \<and> (\<forall>flt. filter (\<lambda>r. task_id r \<noteq> i) (snd (update_task db now flt i u))
                  = filter (\<lambda>r. task_id r \<noteq> i) db)"
proof (intro conjI impI allI)
  assume nn: "u_title u \<noteq> Null \<and> u_priority u \<noteq> Null \<and> u_status u \<noteq> Null"
  let ?t' = "t\<lparr>title := (case u_title u of Val v \<Rightarrow> v | _ \<Rightarrow> title t),
            description := setattr (u_description u) (description t),
            priority := (case u_priority u of Val v \<Rightarrow> v | _ \<Rightarrow> priority t),
            status := (case u_status u of Val v \<Rightarrow> v | _ \<Rightarrow> status t),
            due_date := setattr (u_due_date u) (due_date t),
            updated_at := now\<rparr>"
  from nn have fl: "flush_update t u now = Inr ?t'" by (simp add: flush_update_Inr)
  have run: "update_task db now None i u =
      (Inr (Some ?t'), map (\<lambda>r. if task_id r = i then ?t' else r) db)"
    by (rule update_task_success [OF assms fl])
  have idt: "task_id ?t' = i" using get_task_by_id_SomeD [OF assms] by simp
  have stored: "get_task_by_id (snd (update_task db now None i u)) i = Some ?t'"
    unfolding run snd_conv by (rule get_task_by_id_replaced [OF assms idt])
  show "\<exists>t'. update_task db now None i u =
                    (Inr (Some t'), map (\<lambda>r. if task_id r = i then t' else r) db)
               \<and> get_task_by_id (snd (update_task db now None i u)) i = Some t'
               \<and> updated_at t' = now
               \<and> (\<forall>v. u_title u = Val v \<longrightarrow> title t' = v)
               \<and> (u_description u = Null \<longrightarrow> description t' = None)
               \<and> (\<forall>v. u_description u = Val v \<longrightarrow> description t' = Some v)
               \<and> (\<forall>v. u_priority u = Val v \<longrightarrow> priority t' = v)
               \<and> (\<forall>v. u_status u = Val v \<longrightarrow> status t' = v)
               \<and> (u_due_date u = Null \<longrightarrow> due_date t' = None)
               \<and> (\<forall>v. u_due_date u = Val v \<longrightarrow> due_date t' = Some v)"
    using run stored by (intro exI [of _ ?t']) simp
next
  fix flt r
  assume r: "get_task_by_id (snd (update_task db now flt i u)) i = Some r"
  from update_task_outcomes [OF assms, of now flt u]
  have fr: "r = t \<or> flush_update t u now = Inr r"
  proof
    assume "snd (update_task db now flt i u) = db"
    with r assms show ?thesis by simp
  next
    assume "\<exists>t'. flush_update t u now = Inr t'
              \<and> snd (update_task db now flt i u) = map (\<lambda>r. if task_id r = i then t' else r) db"
    then obtain t' where fl: "flush_update t u now = Inr t'"
      and s: "snd (update_task db now flt i u) = map (\<lambda>r. if task_id r = i then t' else r) db"
      by blast
    have "task_id t' = i"
      using flush_update_frame(1) [OF fl] get_task_by_id_SomeD [OF assms] by simp
    from get_task_by_id_replaced [OF assms this] r s have "r = t'" by simp
    with fl show ?thesis by simp
  qed
  show "task_id r = task_id t" using fr flush_update_frame(1) by blast
  show "created_at r = created_at t" using fr flush_update_frame(2) by blast
  { assume "u_title u = Unset" then show "title r = title t"
      using fr flush_update_frame(4) by blast }
  { assume "u_description u = Unset" then show "description r = description t"
      using fr flush_update_frame(5) by blast }
  { assume "u_priority u = Unset" then show "priority r = priority t"
      using fr flush_update_frame(6) by blast }
  { assume "u_status u = Unset" then show "status r = status t"
      using fr flush_update_frame(7) by blast }
  { assume "u_due_date u = Unset" then show "due_date r = due_date t"
      using fr flush_update_frame(8) by blast }
next
  fix flt
  from update_task_outcomes [OF assms, of now flt u]
  show "filter (\<lambda>r. task_id r \<noteq> i) (snd (update_task db now flt i u))
                  = filter (\<lambda>r. task_id r \<noteq> i) db"
  proof
    assume "snd (update_task db now flt i u) = db" then show ?thesis by simp
  next
    assume "\<exists>t'. flush_update t u now = Inr t'
              \<and> snd (update_task db now flt i u) = map (\<lambda>r. if task_id r = i then t' else r) db"
    then obtain t' where fl: "flush_update t u now = Inr t'"
      and s: "snd (update_task db now flt i u) = map (\<lambda>r. if task_id r = i then t' else r) db"
      by blast
    have "task_id t' = i"
      using flush_update_frame(1) [OF fl] get_task_by_id_SomeD [OF assms] by simp
    then show ?thesis unfolding s by (rule others_after_replace)
  qed
qed

text \<open>The theorem at a concrete store.\<close>

theorem update_task_changes_supplied_fields_witness:
  "get_task_by_id example_db 2 = Some task2
   \<and> update_task example_db 40 None 2 (no_update\<lparr>u_title := Val ''Pay bill'', u_description := Null\<rparr>)
       = (Inr (Some (task2\<lparr>title := ''Pay bill'', description := None, updated_at := 40\<rparr>)),
          [task1, task2\<lparr>title := ''Pay bill'', description := None, updated_at := 40\<rparr>, task3])"
  using update_task_changes_supplied_fields [of example_db 2 task2 "no_update\<lparr>u_title := Val ''Pay bill'', u_description := Null\<rparr>" 40]
  by (simp add: ex_defs update_task_def flush_update_def get_task_by_id_def Let_def)

text \<open>
  A payload that sets \<open>title\<close> to null passes \<open>TaskUpdate\<close>; the commit violates the
  \<open>NOT NULL\<close> constraint of the column, the unit of work is rolled back, and nothing is
  changed: neither the supplied field nor \<open>updated_at\<close>.
\<close>

theorem update_task_null_title_counterexample:
  "TaskUpdate_validate \<lparr>b_title = Null, b_description = Unset, b_priority = Unset,
       b_status = Unset, b_due_date = Unset\<rparr> = Inr (no_update\<lparr>u_title := Null\<rparr>)
   \<and> get_task_by_id example_db 1 = Some task1
   \<and> update_task example_db 40 None 1 (no_update\<lparr>u_title := Null\<rparr>)
        = (Inl IntegrityError, example_db)"
  by (simp add: TaskUpdate_validate_def ex_defs update_task_def flush_update_def
      get_task_by_id_def)

text \<open>
  Claim C3: for every store and every combination of the two filters, the count is the
  length of the list with the same filters, \<open>skip = 0\<close> and no limit; the same holds
  with any limit that is at least the count.
\<close>

theorem get_tasks_count_eq_length: "get_tasks_count db st pr = int (length (get_all_tasks db 0 None st pr))
  \<and> (\<forall>limit. get_tasks_count db st pr \<le> limit \<longrightarrow>
        get_tasks_count db st pr = int (length (get_all_tasks db 0 (Some limit) st pr)))"
  by (auto simp: get_tasks_count_def get_all_tasks_def sql_limit_def sql_offset_def Let_def)

text \<open>The theorem at a concrete store.\<close>

theorem get_tasks_count_eq_length_witness:
  "get_tasks_count example_db (Some TODO) None \<le> 5
   \<and> get_tasks_count example_db (Some TODO) None = 1
   \<and> length (get_all_tasks example_db 0 (Some 5) (Some TODO) None) = 1
   \<and> length (get_all_tasks example_db 0 None (Some TODO) None) = 1"
  using get_tasks_count_eq_length [of example_db "Some TODO" None]
  by (simp add: ex_defs get_tasks_count_def apply_filters_def)

text \<open>
  Claim C4: for every store and every reading \<open>now\<close> of the clock, the overdue tasks
  are exactly the rows whose \<open>due_date\<close> is strictly before \<open>now\<close> and whose
  \<open>status\<close> is neither completed nor cancelled, in table order; a row without
  \<open>due_date\<close> is never among them.
\<close>

theorem get_overdue_tasks_exact:
  "get_overdue_tasks db now =
     filter (\<lambda>t. (\<exists>d. due_date t = Some d \<and> d < now) \<and> status t \<notin> {COMPLETED, CANCELLED}) db
   \<and> (\<forall>t. due_date t = None \<longrightarrow> t \<notin> set (get_overdue_tasks db now))"
  unfolding get_overdue_tasks_def
  by (auto intro!: filter_cong split: option.splits)

text \<open>The theorem at a concrete store.\<close>

theorem get_overdue_tasks_exact_witness:
  "due_date task3 = None \<and> task3 \<notin> set (get_overdue_tasks example_db 30)
   \<and> get_overdue_tasks example_db 30 = [task1]"
  using get_overdue_tasks_exact [of example_db 30]
  by (simp add: ex_defs)




text \<open>
  Claim C6: when the store answers every call, \<open>delete_task\<close> returns \<open>True\<close> exactly
  when a row with the id existed, and then the row is removed and a later lookup of the id
  finds nothing (the route \<open>get_task\<close> answers 404); for an id without a row it returns
  \<open>False\<close>, a result and not an exception, leaves the store as it was, and the route
  answers 404. Whenever \<open>delete_task\<close> returns a boolean at all, it is that one.
\<close>

theorem delete_task_result:
  "delete_task db None i = (Inr (get_task_by_id db i \<noteq> None), filter (\<lambda>r. task_id r \<noteq> i) db)
   \<and> (get_task_by_id db i = None \<longrightarrow>
        delete_task db None i = (Inr False, db)
        \<and> delete_task_route db None i = (Inr (HTTPException 404), db))
   \<and> (get_task_by_id db i \<noteq> None \<longrightarrow>
        fst (delete_task db None i) = Inr True
        \<and> get_task_by_id (snd (delete_task db None i)) i = None
        \<and> get_task (snd (delete_task db None i)) i = HTTPException 404
        \<and> fst (delete_task_route db None i) = Inr (Ok i))
   \<and> (\<forall>flt b. fst (delete_task db flt i) = Inr b \<longrightarrow>
        b = (get_task_by_id db i \<noteq> None)
        \<and> snd (delete_task db flt i) = filter (\<lambda>r. task_id r \<noteq> i) db)"
proof -
  have 1: "delete_task db None i = (Inr (get_task_by_id db i \<noteq> None), filter (\<lambda>r. task_id r \<noteq> i) db)"
    by (auto simp: delete_task_def filter_absent_id split: option.splits)
  have 2: "get_task_by_id db i = None \<longrightarrow>
        delete_task db None i = (Inr False, db)
        \<and> delete_task_route db None i = (Inr (HTTPException 404), db)"
    by (simp add: delete_task_def delete_task_route_def)
  have 3: "get_task_by_id db i \<noteq> None \<longrightarrow>
        fst (delete_task db None i) = Inr True
        \<and> get_task_by_id (snd (delete_task db None i)) i = None
        \<and> get_task (snd (delete_task db None i)) i = HTTPException 404
        \<and> fst (delete_task_route db None i) = Inr (Ok i)"
    by (simp add: 1 get_task_by_id_deleted get_task_def delete_task_route_def)
  have 4: "\<forall>flt b. fst (delete_task db flt i) = Inr b \<longrightarrow>
        b = (get_task_by_id db i \<noteq> None)
        \<and> snd (delete_task db flt i) = filter (\<lambda>r. task_id r \<noteq> i) db"
    by (auto simp: delete_task_def filter_absent_id split: option.splits)
  from 1 2 3 4 show ?thesis by blast
qed

text \<open>The theorem at a concrete store.\<close>

theorem delete_task_result_witness:
  "get_task_by_id example_db 2 \<noteq> None
   \<and> delete_task example_db None 2 = (Inr True, [task1, task3])
   \<and> get_task (snd (delete_task example_db None 2)) 2 = HTTPException 404
   \<and> get_task_by_id example_db 9 = None
   \<and> delete_task example_db None 9 = (Inr False, example_db)
   \<and> delete_task_route example_db None 9 = (Inr (HTTPException 404), example_db)"
  using delete_task_result [of example_db 2] delete_task_result [of example_db 9]
  by (simp add: ex_defs get_task_by_id_def get_task_def delete_task_def delete_task_route_def)

text \<open>
  Claim C7 (an exception of the persistence layer leaves the store unchanged and is
  raised again), as amended: an exception raised by the query or by the commit of a
  create, update or delete, the violation of a constraint included, leaves the store as it
  was and is the exception the caller receives; an operation that raises, with no fault
  at the refresh, raises for one of these reasons. An exception raised by the refresh
  after the commit of a create or update is raised again as well, but the commit has
  taken place: the store is the one the operation leaves when nothing raises (see the
  counterexample).
\<close>

theorem rollback_until_commit:
  "create_task db now (Some (Commit, e)) task = (Inl e, db)
   \<and> update_task db now (Some (Query, e)) i u = (Inl e, db)
   \<and> (get_task_by_id db i \<noteq> None \<longrightarrow> update_task db now (Some (Commit, e)) i u = (Inl e, db))
   \<and> delete_task db (Some (Query, e)) i = (Inl e, db)
   \<and> (get_task_by_id db i \<noteq> None \<longrightarrow> delete_task db (Some (Commit, e)) i = (Inl e, db))
   \<and> (\<forall>flt e'. raises flt Refresh = None \<longrightarrow>
        (fst (create_task db now flt task) = Inl e' \<longrightarrow>
           flt = Some (Commit, e') \<and> snd (create_task db now flt task) = db)
        \<and> (fst (update_task db now flt i u) = Inl e' \<longrightarrow>
           snd (update_task db now flt i u) = db
           \<and> (flt = Some (Query, e') \<or> flt = Some (Commit, e') \<or> e' = IntegrityError)))
   \<and> (\<forall>flt e'. fst (delete_task db flt i) = Inl e' \<longrightarrow>
           snd (delete_task db flt i) = db \<and> (flt = Some (Query, e') \<or> flt = Some (Commit, e')))
   \<and> fst (create_task db now (Some (Refresh, e)) task) = Inl e
   \<and> (get_task_by_id db i \<noteq> None \<longrightarrow>
        fst (update_task db now (Some (Refresh, e)) i u) = Inl e
        \<or> update_task db now (Some (Refresh, e)) i u = (Inl IntegrityError, db))
   \<and> create_task db now (Some (Refresh, e)) task
        = (Inl e, snd (create_task db now None task))
   \<and> (get_task_by_id db i \<noteq> None
        \<and> u_title u \<noteq> Null \<and> u_priority u \<noteq> Null \<and> u_status u \<noteq> Null \<longrightarrow>
        update_task db now (Some (Refresh, e)) i u
          = (Inl e, snd (update_task db now None i u)))"
proof -
  have a: "\<forall>flt e'. raises flt Refresh = None \<longrightarrow>
        (fst (create_task db now flt task) = Inl e' \<longrightarrow>
           flt = Some (Commit, e') \<and> snd (create_task db now flt task) = db)
        \<and> (fst (update_task db now flt i u) = Inl e' \<longrightarrow>
           snd (update_task db now flt i u) = db
           \<and> (flt = Some (Query, e') \<or> flt = Some (Commit, e') \<or> e' = IntegrityError))"
    using create_task_error_unchanged update_task_error_unchanged by blast
  have b: "\<forall>flt e'. fst (delete_task db flt i) = Inl e' \<longrightarrow>
           snd (delete_task db flt i) = db \<and> (flt = Some (Query, e') \<or> flt = Some (Commit, e'))"
    using delete_task_error_unchanged by blast
  have c: "fst (create_task db now (Some (Refresh, e)) task) = Inl e"
    by (simp add: create_task_def Let_def)
  have d: "get_task_by_id db i \<noteq> None \<longrightarrow>
        fst (update_task db now (Some (Refresh, e)) i u) = Inl e
        \<or> update_task db now (Some (Refresh, e)) i u = (Inl IntegrityError, db)"
    by (auto simp: update_task_def Let_def split: sum.splits dest: flush_update_InlD)
  have r1: "create_task db now (Some (Commit, e)) task = (Inl e, db)"
    by (rule create_task_rollback)
  have r2: "update_task db now (Some (Query, e)) i u = (Inl e, db)"
    by (rule update_task_rollback_query)
  have r3: "get_task_by_id db i \<noteq> None \<longrightarrow> update_task db now (Some (Commit, e)) i u = (Inl e, db)"
    by (simp add: update_task_rollback_commit)
  have r4: "delete_task db (Some (Query, e)) i = (Inl e, db)"
    by (rule delete_task_rollback_query)
  have r5: "get_task_by_id db i \<noteq> None \<longrightarrow> delete_task db (Some (Commit, e)) i = (Inl e, db)"
    by (simp add: delete_task_rollback_commit)
  have f: "create_task db now (Some (Refresh, e)) task
        = (Inl e, snd (create_task db now None task))"
    by (simp add: create_task_def Let_def)
  have g: "get_task_by_id db i \<noteq> None
        \<and> u_title u \<noteq> Null \<and> u_priority u \<noteq> Null \<and> u_status u \<noteq> Null \<longrightarrow>
        update_task db now (Some (Refresh, e)) i u
          = (Inl e, snd (update_task db now None i u))"
    by (auto simp: update_task_def Let_def flush_update_Inr)
  show ?thesis
    by (intro conjI) (rule r1 r2 r3 r4 r5 a b c d f g)+
qed

text \<open>The theorem at a concrete store.\<close>

theorem rollback_until_commit_witness:
  "get_task_by_id example_db 2 \<noteq> None
   \<and> raises (Some (Commit, OperationalError)) Refresh = None
   \<and> create_task example_db 50 (Some (Commit, OperationalError)) create_abc
        = (Inl OperationalError, example_db)
   \<and> update_task example_db 50 (Some (Commit, OperationalError)) 2 no_update
        = (Inl OperationalError, example_db)
   \<and> delete_task example_db (Some (Commit, OperationalError)) 2
        = (Inl OperationalError, example_db)
   \<and> u_title no_update \<noteq> Null \<and> u_priority no_update \<noteq> Null \<and> u_status no_update \<noteq> Null
   \<and> update_task example_db 50 (Some (Refresh, OperationalError)) 2 no_update
        = (Inl OperationalError, [task1, task2\<lparr>updated_at := 50\<rparr>, task3])"
  using rollback_until_commit [of example_db 50 OperationalError create_abc 2 no_update]
  by (simp add: ex_defs get_task_by_id_def update_task_def flush_update_def Let_def)

text \<open>
  \<open>create_task\<close> calls \<open>db.refresh\<close> inside \<open>try\<close>, after \<open>db.commit\<close>. When the
  refresh raises, \<open>db.rollback()\<close> has nothing to undo: the caller receives the exception
  and the row is in the store.
\<close>

theorem create_task_refresh_counterexample:
  "create_task [] 10 (Some (Refresh, OperationalError)) create_abc
     = (Inl OperationalError,
        [\<lparr>task_id = 1, title = ''abc'', description = None, priority = MEDIUM, status = TODO,
          created_at = 10, updated_at = 10, due_date = None\<rparr>])"
  by (simp add: create_task_def create_abc_def new_id_def)

text \<open>
  Claim C8 (\<open>updated_at \<ge> created_at\<close> at all times), as amended: when the readings of
  the clock taken by the successive operations never decrease, every row of every store
  reached from the empty store by creates, updates, deletes and completions has
  \<open>created_at \<le> updated_at\<close>. Every create that succeeds returns a task with
  \<open>created_at = updated_at\<close>; every update that succeeds at a reading of the clock not
  before the \<open>created_at\<close> of the task sets \<open>updated_at\<close> to that reading and keeps
  \<open>created_at\<close>.
\<close>

theorem updated_at_ge_created_at:
  "(sorted (map fst evs) \<longrightarrow> (\<forall>t\<in>set (run [] evs). created_at t \<le> updated_at t))
   \<and> (\<exists>t. create_task db now None task = (Inr t, db @ [t]) \<and> created_at t = updated_at t)
   \<and> (\<forall>t t' flt. get_task_by_id db i = Some t \<and> created_at t \<le> now
         \<and> fst (update_task db now flt i u) = Inr (Some t') \<longrightarrow>
         updated_at t' = now \<and> created_at t' = created_at t \<and> created_at t' \<le> updated_at t')"
proof (intro conjI impI allI)
  assume s: "sorted (map fst evs)"
  show "\<forall>t\<in>set (run [] evs). created_at t \<le> updated_at t"
  proof (cases evs)
    case Nil
    then show ?thesis by (simp add: run_def)
  next
    case (Cons ev evs')
    have i0: "\<forall>t\<in>set ([]::Task list). created_at t \<le> updated_at t \<and> updated_at t \<le> fst ev"
      by simp
    have b: "\<forall>e\<in>set evs. fst ev \<le> fst e" using s Cons by auto
    from run_timestamps [OF i0 s b] show ?thesis .
  qed
next
  show "\<exists>t. create_task db now None task = (Inr t, db @ [t]) \<and> created_at t = updated_at t"
    by (simp add: create_task_def Let_def)
next
  fix t t' flt
  assume a: "get_task_by_id db i = Some t \<and> created_at t \<le> now
         \<and> fst (update_task db now flt i u) = Inr (Some t')"
  then have "flush_update t u now = Inr t'"
    unfolding update_task_def by (auto simp: Let_def split: option.splits sum.splits)
  from flush_update_frame(2,3) [OF this] a
  show "updated_at t' = now" and "created_at t' = created_at t"
    and "created_at t' \<le> updated_at t'"
    by simp_all
qed

text \<open>The theorem at a concrete store.\<close>

theorem updated_at_ge_created_at_witness:
  "sorted (map fst [(10, None, Create create_abc), (20, None, Update 1 no_update),
                    (30::int, None, MarkCompleted 1)])
   \<and> list_all (\<lambda>t. created_at t \<le> updated_at t)
        (run [] [(10, None, Create create_abc), (20, None, Update 1 no_update),
                 (30, None, MarkCompleted 1)])
   \<and> get_task_by_id example_db 1 = Some task1 \<and> created_at task1 \<le> 40
   \<and> fst (update_task example_db 40 None 1 no_update) = Inr (Some (task1\<lparr>updated_at := 40\<rparr>))
   \<and> created_at (task1\<lparr>updated_at := 40\<rparr>) \<le> updated_at (task1\<lparr>updated_at := 40\<rparr>)"
  using updated_at_ge_created_at [of "[(10, None, Create create_abc), (20, None, Update 1 no_update),
                    (30, None, MarkCompleted 1)]" example_db 40 create_abc 1 no_update]
  by (simp add: ex_defs get_task_by_id_def update_task_def flush_update_def list_all_iff Let_def)

text \<open>
  \<open>created_at\<close> is the clock of the store (\<open>func.now()\<close>), \<open>updated_at\<close> is set from
  the clock of the application (\<open>datetime.utcnow()\<close>), and the code compares neither.
  A task created at the reading 10 and updated at the reading 5 has \<open>updated_at\<close> before
  \<open>created_at\<close>.
\<close>

theorem clock_backwards_counterexample:
  "map created_at (run [] [(10, None, Create create_abc), (5, None, Update 1 no_update)]) = [10]
   \<and> map updated_at (run [] [(10, None, Create create_abc), (5, None, Update 1 no_update)]) = [5]"
  by (simp add: ex_defs run_def create_task_def update_task_def flush_update_def
      get_task_by_id_def new_id_def Let_def)

text \<open>
  Claim C9 (no stored title is empty or whitespace-only after any accepted sequence of
  requests). A create request with the title \<open>abc\<close> followed by an update request with
  the title of three blanks: both payloads pass validation, and the stored title is the
  three blanks, empty after trimming.
\<close>

theorem blank_title_reachable:
  "TaskCreate_validate \<lparr>b_title = Val ''abc'', b_description = Unset, b_priority = Unset,
       b_status = Unset, b_due_date = Unset\<rparr> = Inr create_abc
   \<and> TaskUpdate_validate \<lparr>b_title = Val ''   '', b_description = Unset, b_priority = Unset,
       b_status = Unset, b_due_date = Unset\<rparr> = Inr (no_update\<lparr>u_title := Val ''   ''\<rparr>)
   \<and> map title (run [] [(10, None, Create create_abc),
                         (20, None, Update 1 (no_update\<lparr>u_title := Val ''   ''\<rparr>))]) = [''   '']
   \<and> strip ''   '' = []"
  by (simp add: TaskUpdate_validate_def TaskCreate_validate_def str_constraints_def
      validate_title_def validate_description_def strip_def isspace_def ex_defs
      run_def create_task_def update_task_def flush_update_def get_task_by_id_def new_id_def Let_def)

text \<open>
  Claim C10: \<open>mark_task_as_completed\<close> is \<open>update_task\<close> with the payload in which
  only \<open>status\<close> is set, to completed, whatever the store, the clock and the fault. For
  an id without a row both return the absence value and leave the store as it was; for an
  existing task the result is the task with \<open>status\<close> completed and \<open>updated_at\<close>
  refreshed, every other field as before, and that row is stored.
\<close>

theorem mark_task_as_completed_eq_update:
  "mark_task_as_completed db now flt i =
     update_task db now flt i \<lparr>u_title = Unset, u_description = Unset, u_priority = Unset,
                               u_status = Val COMPLETED, u_due_date = Unset\<rparr>
   \<and> (get_task_by_id db i = None \<longrightarrow>
        mark_task_as_completed db now None i = (Inr None, db)
        \<and> update_task db now None i \<lparr>u_title = Unset, u_description = Unset,
             u_priority = Unset, u_status = Val COMPLETED, u_due_date = Unset\<rparr> = (Inr None, db))
   \<and> (\<forall>t. get_task_by_id db i = Some t \<longrightarrow>
        mark_task_as_completed db now None i =
          (Inr (Some (t\<lparr>status := COMPLETED, updated_at := now\<rparr>)),
           map (\<lambda>r. if task_id r = i then t\<lparr>status := COMPLETED, updated_at := now\<rparr> else r) db))"
  by (simp add: mark_task_as_completed_def update_task_def flush_update_def Let_def)

text \<open>The theorem at a concrete store.\<close>

theorem mark_task_as_completed_eq_update_witness:
  "get_task_by_id example_db 1 = Some task1
   \<and> mark_task_as_completed example_db 40 None 1
       = (Inr (Some (task1\<lparr>status := COMPLETED, updated_at := 40\<rparr>)),
          [task1\<lparr>status := COMPLETED, updated_at := 40\<rparr>, task2, task3])
   \<and> get_task_by_id example_db 9 = None
   \<and> mark_task_as_completed example_db 40 None 9 = (Inr None, example_db)"
  using mark_task_as_completed_eq_update [of example_db 40 None 1] mark_task_as_completed_eq_update [of example_db 40 None 9]
  by (simp add: ex_defs get_task_by_id_def mark_task_as_completed_def update_task_def
      flush_update_def Let_def)

end
